theory Spec2Isabelle
  imports Main "HOL-Library.Finite_Map"
begin

section \<open>Exceptions\<close>

text \<open>
  The Python exception classes that the two source files raise, catch or let through.
  \<open>KeyboardInterrupt\<close>, \<open>SystemExit\<close> and \<open>GeneratorExit\<close> derive from
  \<open>BaseException\<close> only; every other class below derives from \<open>Exception\<close>.
  \<open>UnicodeError\<close> is a subclass of \<open>ValueError\<close>, \<open>FileNotFoundError\<close> and
  \<open>FileExistsError\<close> are subclasses of \<open>OSError\<close>.
\<close>

datatype exn =
    ValueError | UnicodeError | KeyError | IndexError
  | AssertionError | TypeError | AttributeError | RuntimeError
  | OSError | FileNotFoundError | FileExistsError
  | KeyboardInterrupt | SystemExit | GeneratorExit

text \<open>\<^verbatim>\<open>isinstance(e, Exception)\<close>: what \<^verbatim>\<open>except Exception\<close> catches.\<close>

fun is_Exception :: "exn \<Rightarrow> bool" where
  "is_Exception KeyboardInterrupt = False"
| "is_Exception SystemExit = False"
| "is_Exception GeneratorExit = False"
| "is_Exception _ = True"

text \<open>What \<^verbatim>\<open>except (ValueError, KeyError, IndexError)\<close> catches.\<close>

fun is_substitution_error :: "exn \<Rightarrow> bool" where
  "is_substitution_error ValueError = True"
| "is_substitution_error UnicodeError = True"
| "is_substitution_error KeyError = True"
| "is_substitution_error IndexError = True"
| "is_substitution_error _ = False"

section \<open>utils.backup\_open\<close>

subsection \<open>The file system\<close>

text \<open>
  A file system is a finite map from paths to the bytes of the regular file stored there.
  Directories, links and permissions are not represented.
\<close>

type_synonym path = string
type_synonym bytes = string
type_synonym filesystem = "(path, bytes) fmap"

text \<open>\<^verbatim>\<open>os.path.exists\<close>\<close>

definition path_exists :: "filesystem \<Rightarrow> path \<Rightarrow> bool" where
  "path_exists fs p = (fmlookup fs p \<noteq> None)"

text \<open>\<^verbatim>\<open>shutil.copy(src, dst)\<close>: \<open>dst\<close> receives the bytes of \<open>src\<close>.\<close>

definition shutil_copy :: "path \<Rightarrow> path \<Rightarrow> filesystem \<Rightarrow> exn + filesystem" where
  "shutil_copy src dst fs =
     (case fmlookup fs src of
        None \<Rightarrow> Inl FileNotFoundError
      | Some b \<Rightarrow> Inr (fmupd dst b fs))"

text \<open>\<^verbatim>\<open>shutil.move(src, dst)\<close>: a rename; \<open>dst\<close> is replaced and \<open>src\<close> disappears.\<close>

definition shutil_move :: "path \<Rightarrow> path \<Rightarrow> filesystem \<Rightarrow> exn + filesystem" where
  "shutil_move src dst fs =
     (case fmlookup fs src of
        None \<Rightarrow> Inl FileNotFoundError
      | Some b \<Rightarrow> Inr (fmupd dst b (fmdrop src fs)))"

text \<open>\<^verbatim>\<open>os.remove\<close>\<close>

definition os_remove :: "path \<Rightarrow> filesystem \<Rightarrow> exn + filesystem" where
  "os_remove p fs =
     (if path_exists fs p then Inr (fmdrop p fs) else Inl FileNotFoundError)"

text \<open>
  \<^verbatim>\<open>open(path, mode)\<close>. The file object it returns is represented by the path it was
  opened on. \<open>ModeInvalid\<close> stands for a mode string that \<^verbatim>\<open>open\<close> rejects.
\<close>

datatype open_mode = ModeR | ModeW | ModeA | ModeX | ModeInvalid

fun py_open :: "path \<Rightarrow> open_mode \<Rightarrow> filesystem \<Rightarrow> (exn + path) \<times> filesystem" where
  "py_open p ModeR fs =
     (if path_exists fs p then (Inr p, fs) else (Inl FileNotFoundError, fs))"
| "py_open p ModeW fs = (Inr p, fmupd p [] fs)"
| "py_open p ModeA fs =
     (if path_exists fs p then (Inr p, fs) else (Inr p, fmupd p [] fs))"
| "py_open p ModeX fs =
     (if path_exists fs p then (Inl FileExistsError, fs) else (Inr p, fmupd p [] fs))"
| "py_open p ModeInvalid fs = (Inl ValueError, fs)"

subsection \<open>os.path.splitext\<close>

text \<open>\<^verbatim>\<open>str.rfind\<close> for a single character: the last index holding it, or \<open>-1\<close>.\<close>

definition rfind :: "char \<Rightarrow> string \<Rightarrow> int" where
  "rfind c p =
     (case filter (\<lambda>i. p ! i = c) (rev [0..<length p]) of
        [] \<Rightarrow> - 1
      | i # _ \<Rightarrow> int i)"

text \<open>
  The loop of \<^verbatim>\<open>genericpath._splitext\<close> that skips the leading dots of the file name:
  it answers whether some character from \<open>filenameIndex\<close> up to \<open>dotIndex\<close> is not a dot.
\<close>

function has_non_dot :: "string \<Rightarrow> nat \<Rightarrow> nat \<Rightarrow> bool" where
  "has_non_dot p filenameIndex dotIndex =
     (if filenameIndex < dotIndex
      then (if p ! filenameIndex \<noteq> CHR ''.'' then True
            else has_non_dot p (Suc filenameIndex) dotIndex)
      else False)"
  by pat_completeness auto
termination
  by (relation "measure (\<lambda>(p, i, d). d - i)") auto

definition splitext :: "path \<Rightarrow> string \<times> string" where
  "splitext p =
     (let sepIndex = rfind CHR ''/'' p;
          dotIndex = rfind CHR ''.'' p
      in if dotIndex > sepIndex \<and> has_non_dot p (nat (sepIndex + 1)) (nat dotIndex)
         then (take (nat dotIndex) p, drop (nat dotIndex) p)
         else (p, []))"

subsection \<open>The context manager\<close>

text \<open>
  The loop \<^verbatim>\<open>while os.path.exists(name + ext): name += '-backup'\<close>. It ends because
  each round leaves one existing path fewer that is at least as long as \<open>name + ext\<close>.
\<close>

function backup_name :: "filesystem \<Rightarrow> string \<Rightarrow> string \<Rightarrow> string" where
  "backup_name fs name ext =
     (if path_exists fs (name @ ext) then backup_name fs (name @ ''-backup'') ext
      else name)"
  by pat_completeness auto
termination
proof (relation "measure (\<lambda>(fs, name, ext).
         card {p \<in> fmdom' fs. length name + length ext \<le> length p})")
  show "wf (measure (\<lambda>(fs, name, ext).
         card {p \<in> fmdom' fs. length name + length ext \<le> length p}))"
    by simp
next
  fix fs :: filesystem and name ext :: string
  assume ex: "path_exists fs (name @ ext)"
  let ?A = "{p \<in> fmdom' fs. length name + length ext \<le> length p}"
  let ?B = "{p \<in> fmdom' fs. length (name @ ''-backup'') + length ext \<le> length p}"
  have mem: "name @ ext \<in> ?A"
    using ex by (auto simp: path_exists_def fmlookup_dom'_iff)
  have "name @ ext \<notin> ?B" by simp
  moreover have "?B \<subseteq> ?A" by auto
  ultimately have "?B \<subset> ?A" using mem by blast
  moreover have "finite ?A" by simp
  ultimately have "card ?B < card ?A" by (rule psubset_card_mono [rotated])
  then show "((fs, name @ ''-backup'', ext), (fs, name, ext))
      \<in> measure (\<lambda>(fs, name, ext).
           card {p \<in> fmdom' fs. length name + length ext \<le> length p})"
    by simp
qed

text \<open>
  The \<^verbatim>\<open>except Exception\<close> clause: restore from the backup and re-raise. An exception
  that is not an \<open>Exception\<close> passes through the \<^verbatim>\<open>try\<close> statement untouched; the
  \<^verbatim>\<open>else\<close> clause does not run either.
\<close>

definition restore_and_raise :: "exn \<Rightarrow> path \<Rightarrow> path \<Rightarrow> filesystem \<Rightarrow> exn option \<times> filesystem" where
  "restore_and_raise e backuppath p fs =
     (if is_Exception e
      then (case shutil_move backuppath p fs of
              Inl e' \<Rightarrow> (Some e', fs)
            | Inr fs' \<Rightarrow> (Some e, fs'))
      else (Some e, fs))"

text \<open>The path the backup is written to.\<close>

definition backup_path :: "filesystem \<Rightarrow> path \<Rightarrow> path" where
  "backup_path fs p = (case splitext p of (name, ext) \<Rightarrow> backup_name fs name ext @ ext)"

text \<open>
  \<^verbatim>\<open>with backup_open(path, mode) as file: body\<close>, run to the end of the \<^verbatim>\<open>with\<close>
  statement. The body is the caller's code: it receives the file object and the file
  system, and ends normally (\<open>None\<close>) or by raising. The result is the exception that
  leaves the \<^verbatim>\<open>with\<close> statement, if any, and the file system at that moment.
\<close>

definition backup_open ::
  "path \<Rightarrow> open_mode \<Rightarrow> (path \<Rightarrow> filesystem \<Rightarrow> exn option \<times> filesystem)
     \<Rightarrow> filesystem \<Rightarrow> exn option \<times> filesystem" where
  "backup_open p mode body fs =
     (if path_exists fs p then
        (let backuppath = backup_path fs p in
         case shutil_copy p backuppath fs of
           Inl e \<Rightarrow> (Some e, fs)
         | Inr fs1 \<Rightarrow>
            (case py_open p mode fs1 of
               (Inl e, fs2) \<Rightarrow> restore_and_raise e backuppath p fs2
             | (Inr file, fs2) \<Rightarrow>
                (case body file fs2 of
                   (Some e, fs3) \<Rightarrow> restore_and_raise e backuppath p fs3
                 | (None, fs3) \<Rightarrow>
                    (case os_remove backuppath fs3 of
                       Inl e \<Rightarrow> (Some e, fs3)
                     | Inr fs4 \<Rightarrow> (None, fs4)))))
      else
        (case py_open p mode fs of
           (Inl e, fs1) \<Rightarrow> (Some e, fs1)
         | (Inr file, fs1) \<Rightarrow> body file fs1))"


text \<open>
  What the \<^verbatim>\<open>with\<close> statement runs between the backup and the clean-up: the call of
  \<^verbatim>\<open>open\<close> and, when it returns, the body.
\<close>

definition open_and_body ::
  "path \<Rightarrow> open_mode \<Rightarrow> (path \<Rightarrow> filesystem \<Rightarrow> exn option \<times> filesystem)
     \<Rightarrow> filesystem \<Rightarrow> exn option \<times> filesystem" where
  "open_and_body p mode body fs =
     (case py_open p mode fs of
        (Inl e, fs1) \<Rightarrow> (Some e, fs1)
      | (Inr file, fs1) \<Rightarrow> body file fs1)"

section \<open>utils.run\_in\_thread\<close>

text \<open>
  The elements of the list \<^verbatim>\<open>result\<close>, which are the arguments \<^verbatim>\<open>done_callback\<close>
  receives: a success flag, and the value or the traceback text.
\<close>

datatype 'v pyval = PyBool bool | PyStr string | PyObj 'v

text \<open>
  The worker thread runs \<^verbatim>\<open>thread_target\<close>: \<open>Running\<close> while
  \<^verbatim>\<open>blocking_function\<close> has not come back, \<open>Stored\<close> once \<^verbatim>\<open>result[:]\<close> is
  assigned and the thread has not ended yet, \<open>Exited\<close> when \<^verbatim>\<open>is_alive()\<close> is false.
\<close>

datatype thread_phase = Running | Stored | Exited

text \<open>What Tk's main loop holds for later: \<^verbatim>\<open>after_idle(check)\<close>, \<^verbatim>\<open>after(ms, check)\<close>.\<close>

datatype timer = AfterIdle | After nat

text \<open>
  The variables of one call of \<^verbatim>\<open>run_in_thread\<close>: the thread, the list \<^verbatim>\<open>result\<close>,
  an exception that has left \<^verbatim>\<open>thread_target\<close>, whether \<^verbatim>\<open>run_in_thread\<close> has made
  its call of \<^verbatim>\<open>after_idle\<close>, the callbacks waiting in the main loop, and the
  argument lists of the calls of \<^verbatim>\<open>done_callback\<close> made so far.
\<close>

record 'v rit_state =
  thread :: thread_phase
  result :: "'v pyval list"
  uncaught :: "exn option"
  scheduled :: bool
  pending :: "timer list"
  calls :: "'v pyval list list"

text \<open>The state when \<^verbatim>\<open>thread.start()\<close> has returned in \<^verbatim>\<open>run_in_thread\<close>.\<close>

definition rit_init :: "'v rit_state" where
  "rit_init = \<lparr>thread = Running, result = [], uncaught = None, scheduled = False,
               pending = [], calls = []\<rparr>"

text \<open>
  The next step of the worker thread in \<^verbatim>\<open>thread_target\<close>, if it has one. \<open>outcome\<close>
  is how \<^verbatim>\<open>blocking_function()\<close> ends, \<open>format_exc\<close> is \<^verbatim>\<open>traceback.format_exc()\<close>
  for the exception being handled. An exception that is not an \<open>Exception\<close> leaves
  \<^verbatim>\<open>thread_target\<close>, and \<^verbatim>\<open>result\<close> stays as it was.
\<close>

definition thread_target ::
  "(exn + 'v) \<Rightarrow> (exn \<Rightarrow> string) \<Rightarrow> 'v rit_state \<Rightarrow> 'v rit_state option" where
  "thread_target outcome format_exc s =
     (case thread s of
        Running \<Rightarrow>
          (case outcome of
             Inr v \<Rightarrow> Some (s\<lparr>result := [PyBool True, PyObj v], thread := Stored\<rparr>)
           | Inl e \<Rightarrow>
               if is_Exception e
               then Some (s\<lparr>result := [PyBool False, PyStr (format_exc e)], thread := Stored\<rparr>)
               else Some (s\<lparr>uncaught := Some e, thread := Exited\<rparr>))
      | Stored \<Rightarrow> Some (s\<lparr>thread := Exited\<rparr>)
      | Exited \<Rightarrow> None)"

text \<open>\<^verbatim>\<open>root.after_idle(check)\<close>, the last statement of \<^verbatim>\<open>run_in_thread\<close>.\<close>

definition after_idle :: "'v rit_state \<Rightarrow> 'v rit_state option" where
  "after_idle s =
     (if scheduled s then None
      else Some (s\<lparr>scheduled := True, pending := pending s @ [AfterIdle]\<rparr>))"

text \<open>
  The main loop runs \<^verbatim>\<open>check\<close> for the waiting callback \<open>t\<close>: \<^verbatim>\<open>root.after(100, check)\<close>
  if the thread is alive; otherwise \<^verbatim>\<open>done_callback\<close> is called with the elements
  of \<^verbatim>\<open>result\<close> as its arguments.
\<close>

definition check :: "timer \<Rightarrow> 'v rit_state \<Rightarrow> 'v rit_state option" where
  "check t s =
     (if t \<notin> set (pending s) then None
      else if thread s \<noteq> Exited
      then Some (s\<lparr>pending := remove1 t (pending s) @ [After 100]\<rparr>)
      else Some (s\<lparr>pending := remove1 t (pending s), calls := calls s @ [result s]\<rparr>))"

text \<open>Who takes a step: the worker thread, or the main thread of the GUI.\<close>

datatype actor = Worker | RunInThread | MainLoop timer

fun rit_step ::
  "(exn + 'v) \<Rightarrow> (exn \<Rightarrow> string) \<Rightarrow> actor \<Rightarrow> 'v rit_state \<Rightarrow> 'v rit_state option" where
  "rit_step outcome format_exc Worker s = thread_target outcome format_exc s"
| "rit_step outcome format_exc RunInThread s = after_idle s"
| "rit_step outcome format_exc (MainLoop t) s = check t s"

text \<open>
  A schedule is the order in which the worker and the main thread take their steps;
  \<open>None\<close> when it asks for a step that cannot be taken. Nothing forces the worker to
  take its step: a blocking function that never returns is a schedule without it.
\<close>

fun rit_run ::
  "(exn + 'v) \<Rightarrow> (exn \<Rightarrow> string) \<Rightarrow> actor list \<Rightarrow> 'v rit_state \<Rightarrow> 'v rit_state option" where
  "rit_run outcome format_exc [] s = Some s"
| "rit_run outcome format_exc (a # schedule) s =
     (case rit_step outcome format_exc a s of
        None \<Rightarrow> None
      | Some s' \<Rightarrow> rit_run outcome format_exc schedule s')"

text \<open>The arguments \<^verbatim>\<open>done_callback\<close> is due, by the docstring of \<^verbatim>\<open>run_in_thread\<close>.\<close>

fun expected_args :: "(exn \<Rightarrow> string) \<Rightarrow> exn + 'v \<Rightarrow> 'v pyval list" where
  "expected_args format_exc (Inr v) = [PyBool True, PyObj v]"
| "expected_args format_exc (Inl e) = [PyBool False, PyStr (format_exc e)]"

section \<open>plugins/run/dialog.py\<close>

subsection \<open>Strings\<close>

text \<open>
  A \<open>char\<close> stands for a code point below 256. \<^verbatim>\<open>str.isspace\<close> and
  \<^verbatim>\<open>str.isprintable\<close> are given for these code points (the Unicode categories of
  Latin-1).
\<close>

definition py_isspace :: "char \<Rightarrow> bool" where
  "py_isspace c =
     (let n = (of_char c :: nat)
      in (9 \<le> n \<and> n \<le> 13) \<or> (28 \<le> n \<and> n \<le> 32) \<or> n = 133 \<or> n = 160)"

definition char_isprintable :: "char \<Rightarrow> bool" where
  "char_isprintable c =
     (let n = (of_char c :: nat)
      in (32 \<le> n \<and> n \<le> 126) \<or> (161 \<le> n \<and> n \<noteq> 173))"

text \<open>\<^verbatim>\<open>s.isprintable()\<close>: every character is printable (true of the empty string).\<close>

definition isprintable :: "string \<Rightarrow> bool" where
  "isprintable s = list_all char_isprintable s"

text \<open>\<^verbatim>\<open>s.strip()\<close>\<close>

definition strip :: "string \<Rightarrow> string" where
  "strip s = rev (dropWhile py_isspace (rev (dropWhile py_isspace s)))"

text \<open>\<^verbatim>\<open>s.startswith(prefix)\<close>\<close>

definition startswith :: "string \<Rightarrow> string \<Rightarrow> bool" where
  "startswith s pre = (take (length pre) s = pre)"

text \<open>\<^verbatim>\<open>xs.index(x)\<close>: the first position of \<open>x\<close>, or \<open>ValueError\<close>.\<close>

fun list_index :: "'a list \<Rightarrow> 'a \<Rightarrow> exn + nat" where
  "list_index [] x = Inl ValueError"
| "list_index (y # ys) x =
     (if y = x then Inr 0
      else (case list_index ys x of Inl e \<Rightarrow> Inl e | Inr i \<Rightarrow> Inr (Suc i)))"

subsection \<open>Commands\<close>

text \<open>
  \<^verbatim>\<open>common.Command\<close>, with the four fields that \<^verbatim>\<open>get_command\<close> passes to its
  constructor. The substitutions are a \<^verbatim>\<open>dict\<close> from names to values.
\<close>

record Command =
  command_format :: string
  cwd_format :: string
  external_terminal :: bool
  substitutions :: "string \<rightharpoonup> string"

text \<open>
  Modelled from the spec: the substitution that \<^verbatim>\<open>Command.format_command\<close> and
  \<^verbatim>\<open>Command.format_cwd\<close> perform; they are methods of
  \<^verbatim>\<open>plugins/run/common.py\<close>, which is not among the sources. The spec
  says that a substitution is a named placeholder replaced into a command template at
  format time, that formatting a command produces the literal strings shown to the user
  or executed, and that it can fail with a validation error. The dialog writes a
  placeholder as \<^verbatim>\<open>{name}\<close> and catches \<open>ValueError\<close>, \<open>KeyError\<close> and
  \<open>IndexError\<close>. So: \<^verbatim>\<open>{name}\<close> is replaced by the value of \<open>name\<close>, a name
  without a value is a \<open>KeyError\<close>, a placeholder without a name is an
  \<open>IndexError\<close>, \<^verbatim>\<open>{{\<close> and \<^verbatim>\<open>}}\<close> stand for one brace, and any other brace is a
  \<open>ValueError\<close>. The second argument of \<open>substitute\<close> is the placeholder name read
  so far, when the scan is inside a placeholder.
\<close>

fun substitute :: "(string \<rightharpoonup> string) \<Rightarrow> string option \<Rightarrow> string \<Rightarrow> exn + string" where
  "substitute subs None [] = Inr []"
| "substitute subs (Some name) [] = Inl ValueError"
| "substitute subs None (c # cs) =
     (if c = CHR ''{'' then
        (case cs of
           [] \<Rightarrow> Inl ValueError
         | c' # cs' \<Rightarrow>
            if c' = CHR ''{''
            then (case substitute subs None cs' of
                    Inl e \<Rightarrow> Inl e | Inr r \<Rightarrow> Inr (CHR ''{'' # r))
            else substitute subs (Some []) cs)
      else if c = CHR ''}'' then
        (case cs of
           [] \<Rightarrow> Inl ValueError
         | c' # cs' \<Rightarrow>
            if c' = CHR ''}''
            then (case substitute subs None cs' of
                    Inl e \<Rightarrow> Inl e | Inr r \<Rightarrow> Inr (CHR ''}'' # r))
            else Inl ValueError)
      else (case substitute subs None cs of
              Inl e \<Rightarrow> Inl e | Inr r \<Rightarrow> Inr (c # r)))"
| "substitute subs (Some name) (c # cs) =
     (if c = CHR ''}'' then
        (if name = [] then Inl IndexError
         else (case subs name of
                 None \<Rightarrow> Inl KeyError
               | Some v \<Rightarrow>
                  (case substitute subs None cs of
                     Inl e \<Rightarrow> Inl e | Inr r \<Rightarrow> Inr (v @ r))))
      else if c = CHR ''{'' then Inl ValueError
      else substitute subs (Some (name @ [c])) cs)"

text \<open>
  Modelled from the spec: \<^verbatim>\<open>Command.format_command\<close> of \<^verbatim>\<open>common.py\<close>, which is not
  among the sources. It replaces the placeholders of the command format by the
  substitutions of the command.
\<close>

definition format_command :: "Command \<Rightarrow> exn + string" where
  "format_command cmd = substitute (substitutions cmd) None (command_format cmd)"

text \<open>
  Modelled from the spec: the path object that \<^verbatim>\<open>Command.format_cwd\<close> returns. The
  dialog asks \<^verbatim>\<open>is_dir()\<close> and \<^verbatim>\<open>is_absolute()\<close> of it and shows \<^verbatim>\<open>str()\<close> of it.
\<close>

datatype Path = Path string

text \<open>
  Modelled from the spec: \<^verbatim>\<open>Command.format_cwd\<close> of \<^verbatim>\<open>common.py\<close>, which is not
  among the sources. It replaces the placeholders of the working directory format like
  those of the command, and returns the path.
\<close>

definition format_cwd :: "Command \<Rightarrow> exn + Path" where
  "format_cwd cmd =
     (case substitute (substitutions cmd) None (cwd_format cmd) of
        Inl e \<Rightarrow> Inl e
      | Inr r \<Rightarrow> Inr (Path r))"

text \<open>
  What the dialog takes from outside \<^verbatim>\<open>dialog.py\<close>: the two formatting methods of
  \<^verbatim>\<open>Command\<close>, and for the path object \<open>'p\<close> that \<^verbatim>\<open>format_cwd\<close> returns, its
  \<^verbatim>\<open>str()\<close>, \<^verbatim>\<open>is_dir()\<close> and \<^verbatim>\<open>is_absolute()\<close>. \<^verbatim>\<open>is_dir()\<close> is a question to the
  file system: \<^verbatim>\<open>pathlib\<close> answers \<open>False\<close> for a path that does not exist and lets
  the \<open>OSError\<close> of any other failure through (a name that is too long, a directory
  that may not be searched); \<open>None\<close> stands for that \<open>OSError\<close>.
\<close>

record 'p env =
  env_format_command :: "Command \<Rightarrow> exn + string"
  env_format_cwd :: "Command \<Rightarrow> exn + 'p"
  env_str :: "'p \<Rightarrow> string"
  env_is_dir :: "'p \<Rightarrow> bool option"
  env_is_absolute :: "'p \<Rightarrow> bool"

subsection \<open>Widgets\<close>

datatype widget_state = Normal | Disabled

text \<open>
  A Tk text widget: its text, its state and its font. Inserting into a disabled widget
  and deleting from it do nothing, which is why \<^verbatim>\<open>validate\<close> enables it first.
\<close>

record text_widget =
  tw_text :: string
  tw_state :: widget_state
  tw_font :: string

definition tw_config :: "widget_state \<Rightarrow> string option \<Rightarrow> text_widget \<Rightarrow> text_widget" where
  "tw_config st font w =
     (case font of
        None \<Rightarrow> w\<lparr>tw_state := st\<rparr>
      | Some f \<Rightarrow> w\<lparr>tw_state := st, tw_font := f\<rparr>)"

text \<open>\<^verbatim>\<open>delete("1.0", "end")\<close>\<close>

definition tw_delete_all :: "text_widget \<Rightarrow> text_widget" where
  "tw_delete_all w = (if tw_state w = Normal then w\<lparr>tw_text := []\<rparr> else w)"

text \<open>\<^verbatim>\<open>insert("1.0", value)\<close>\<close>

definition tw_insert_start :: "string \<Rightarrow> text_widget \<Rightarrow> text_widget" where
  "tw_insert_start v w = (if tw_state w = Normal then w\<lparr>tw_text := v @ tw_text w\<rparr> else w)"

text \<open>
  \<^verbatim>\<open>_FormattingEntryAndLabels\<close>: the string variable shown in the entry, the insertion
  cursor and the selection of the entry (\<^verbatim>\<open>sel.first\<close>, \<^verbatim>\<open>sel.last\<close>), and the
  display below it.
\<close>

record FormattingEntryAndLabels =
  format_var :: string
  entry_insert :: nat
  entry_selection :: "(nat \<times> nat) option"
  command_display :: text_widget

text \<open>\<^verbatim>\<open>entry.icursor(i)\<close>: the index is clipped to the text.\<close>

definition icursor :: "nat \<Rightarrow> FormattingEntryAndLabels \<Rightarrow> FormattingEntryAndLabels" where
  "icursor i f = f\<lparr>entry_insert := min i (length (format_var f))\<rparr>"

text \<open>
  \<^verbatim>\<open>entry.selection_range(start, end)\<close>, the two indices resolved by the caller
  (\<^verbatim>\<open>"insert"\<close> is the cursor, \<^verbatim>\<open>"end"\<close> the length of the text): Tk clears the
  selection when the range is empty.
\<close>

definition selection_range :: "nat \<Rightarrow> nat \<Rightarrow> FormattingEntryAndLabels \<Rightarrow> FormattingEntryAndLabels" where
  "selection_range a b f =
     (let a' = min a (length (format_var f)); b' = min b (length (format_var f))
      in if a' < b' then f\<lparr>entry_selection := Some (a', b')\<rparr>
         else f\<lparr>entry_selection := None\<rparr>)"

text \<open>
  The entry follows its \<^verbatim>\<open>textvariable\<close>: a new value replaces the text, and Tk
  clips the cursor and the selection to it.
\<close>

definition entry_set_text :: "string \<Rightarrow> FormattingEntryAndLabels \<Rightarrow> FormattingEntryAndLabels" where
  "entry_set_text v f =
     f\<lparr>format_var := v,
       entry_insert := min (entry_insert f) (length v),
       entry_selection :=
         (case entry_selection f of
            None \<Rightarrow> None
          | Some (a, b) \<Rightarrow> if a < length v then Some (a, min b (length v)) else None)\<rparr>"

text \<open>The text of the entry that is selected.\<close>

definition selected_text :: "FormattingEntryAndLabels \<Rightarrow> string" where
  "selected_text f =
     (case entry_selection f of
        None \<Rightarrow> []
      | Some (a, b) \<Rightarrow> take (b - a) (drop a (format_var f)))"

subsection \<open>The dialog\<close>

text \<open>\<^verbatim>\<open>_CommandAsker\<close>\<close>

record CommandAsker =
  ca_substitutions :: "string \<rightharpoonup> string"
  command :: FormattingEntryAndLabels
  cwd :: FormattingEntryAndLabels
  terminal_var :: bool
  repeat_bindings :: "string list"
  repeat_var :: string
  run_button :: widget_state
  run_clicked :: bool
  suggestions :: "Command list"

definition get_command :: "CommandAsker \<Rightarrow> Command" where
  "get_command s =
     \<lparr>command_format = format_var (command s),
      cwd_format = format_var (cwd s),
      external_terminal = terminal_var s,
      substitutions = ca_substitutions s\<rparr>"

definition get_key_id :: "CommandAsker \<Rightarrow> exn + nat" where
  "get_key_id s = list_index (repeat_bindings s) (repeat_var s)"

text \<open>
  The \<^verbatim>\<open>try\<close> statement covers the two formatting calls; \<^verbatim>\<open>format_cwd\<close> is not
  called when \<^verbatim>\<open>format_command\<close> has raised. Any other exception leaves the method.
  The \<^verbatim>\<open>return\<close> statement is outside the \<^verbatim>\<open>try\<close> statement: its \<^verbatim>\<open>and\<close> asks
  \<^verbatim>\<open>cwd.is_dir()\<close> only for a command that is not blank, and an \<open>OSError\<close> of
  \<^verbatim>\<open>is_dir()\<close> leaves the method.
\<close>

definition command_and_cwd_are_valid :: "'p env \<Rightarrow> CommandAsker \<Rightarrow> exn + bool" where
  "command_and_cwd_are_valid env s =
     (case env_format_command env (get_command s) of
        Inl e \<Rightarrow> if is_substitution_error e then Inr False else Inl e
      | Inr cmd \<Rightarrow>
         (case env_format_cwd env (get_command s) of
            Inl e \<Rightarrow> if is_substitution_error e then Inr False else Inl e
          | Inr dir \<Rightarrow>
             if strip cmd = [] then Inr False
             else (case env_is_dir env dir of
                     None \<Rightarrow> Inl OSError
                   | Some is_dir \<Rightarrow> Inr (is_dir \<and> env_is_absolute env dir))))"

definition update_run_button :: "'p env \<Rightarrow> CommandAsker \<Rightarrow> exn option \<times> CommandAsker" where
  "update_run_button env s =
     (case command_and_cwd_are_valid env s of
        Inl e \<Rightarrow> (Some e, s)
      | Inr valid \<Rightarrow>
         if valid \<and> repeat_var s \<in> set (repeat_bindings s)
         then (None, s\<lparr>run_button := Normal\<rparr>)
         else (None, s\<lparr>run_button := Disabled\<rparr>))"

text \<open>The two \<^verbatim>\<open>_FormattingEntryAndLabels\<close> objects of the dialog.\<close>

datatype field = CommandField | CwdField

fun get_field :: "field \<Rightarrow> CommandAsker \<Rightarrow> FormattingEntryAndLabels" where
  "get_field CommandField s = command s"
| "get_field CwdField s = cwd s"

fun map_field ::
  "field \<Rightarrow> (FormattingEntryAndLabels \<Rightarrow> FormattingEntryAndLabels) \<Rightarrow> CommandAsker \<Rightarrow> CommandAsker" where
  "map_field CommandField g s = s\<lparr>command := g (command s)\<rparr>"
| "map_field CwdField g s = s\<lparr>cwd := g (cwd s)\<rparr>"

text \<open>
  The \<^verbatim>\<open>get_substituted_value\<close> that \<^verbatim>\<open>_CommandAsker.__init__\<close> gives to each of
  them: \<^verbatim>\<open>lambda: self.get_command().format_command()\<close> and
  \<^verbatim>\<open>lambda: str(self.get_command().format_cwd())\<close>.
\<close>

fun get_substituted_value :: "'p env \<Rightarrow> field \<Rightarrow> CommandAsker \<Rightarrow> exn + string" where
  "get_substituted_value env CommandField s = env_format_command env (get_command s)"
| "get_substituted_value env CwdField s =
     (case env_format_cwd env (get_command s) of
        Inl e \<Rightarrow> Inl e
      | Inr dir \<Rightarrow> Inr (env_str env dir))"

text \<open>The two branches of the \<^verbatim>\<open>try\<close> statement of \<^verbatim>\<open>validate\<close>, on the display.\<close>

definition show_error :: "text_widget \<Rightarrow> text_widget" where
  "show_error w =
     tw_config Disabled None
       (tw_insert_start ''Substitution error''
         (tw_delete_all (tw_config Normal (Some ''TkDefaultFont'') w)))"

definition show_value :: "string \<Rightarrow> text_widget \<Rightarrow> text_widget" where
  "show_value v w =
     tw_config Disabled None
       (tw_insert_start v
         (tw_delete_all (tw_config Normal (Some ''TkFixedFont'') w)))"

text \<open>
  \<^verbatim>\<open>_FormattingEntryAndLabels.validate\<close>, for the object \<open>fld\<close> of the dialog; its
  \<^verbatim>\<open>validated_callback\<close> is \<^verbatim>\<open>update_run_button\<close>. An exception that the
  \<^verbatim>\<open>except\<close> clause does not name leaves the method before anything is shown.
\<close>

definition validate :: "'p env \<Rightarrow> field \<Rightarrow> CommandAsker \<Rightarrow> exn option \<times> CommandAsker" where
  "validate env fld s =
     (case get_substituted_value env fld s of
        Inl e \<Rightarrow>
          if is_substitution_error e
          then update_run_button env
                 (map_field fld (\<lambda>f. f\<lparr>command_display := show_error (command_display f)\<rparr>) s)
          else (Some e, s)
      | Inr v \<Rightarrow>
          update_run_button env
            (map_field fld (\<lambda>f. f\<lparr>command_display := show_value v (command_display f)\<rparr>) s))"

text \<open>
  \<^verbatim>\<open>format_var.set(v)\<close>: the entry shows the new text, then the write trace runs
  \<^verbatim>\<open>validate\<close>. Tkinter reports an exception of a trace callback and does not pass it
  on to the caller of \<^verbatim>\<open>set\<close>.
\<close>

definition format_var_set :: "'p env \<Rightarrow> field \<Rightarrow> string \<Rightarrow> CommandAsker \<Rightarrow> CommandAsker" where
  "format_var_set env fld v s = snd (validate env fld (map_field fld (entry_set_text v) s))"


definition select_command_autocompletion ::
  "'p env \<Rightarrow> Command \<Rightarrow> string \<Rightarrow> CommandAsker \<Rightarrow> exn option \<times> CommandAsker" where
  "select_command_autocompletion env cmd prefix s =
     (if \<not> startswith (command_format cmd) prefix then (Some AssertionError, s)
      else
        (let s1 = format_var_set env CommandField (command_format cmd) s;
             s2 = map_field CommandField (icursor (length prefix)) s1;
             s3 = map_field CommandField
                    (\<lambda>f. selection_range (entry_insert f) (length (format_var f)) f) s2;
             s4 = format_var_set env CwdField (cwd_format cmd) s3
         in (None, s4\<lparr>terminal_var := external_terminal cmd\<rparr>)))"

text \<open>The \<^verbatim>\<open>for\<close> loop of \<^verbatim>\<open>_autocomplete\<close> over the suggestions.\<close>

fun autocomplete_loop ::
  "'p env \<Rightarrow> string \<Rightarrow> Command list \<Rightarrow> CommandAsker \<Rightarrow> (exn + string option) \<times> CommandAsker" where
  "autocomplete_loop env prefix [] s = (Inr None, s)"
| "autocomplete_loop env prefix (item # items) s =
     (if startswith (command_format item) prefix
      then (case select_command_autocompletion env item prefix s of
              (Some e, s') \<Rightarrow> (Inl e, s')
            | (None, s') \<Rightarrow> (Inr (Some ''break''), s'))
      else autocomplete_loop env prefix items s)"

text \<open>\<^verbatim>\<open>_autocomplete\<close>; \<open>char\<close> is \<^verbatim>\<open>event.char\<close>.\<close>

definition autocomplete ::
  "'p env \<Rightarrow> string \<Rightarrow> CommandAsker \<Rightarrow> (exn + string option) \<times> CommandAsker" where
  "autocomplete env char s =
     (if length char \<noteq> 1 \<or> \<not> isprintable char then (Inr None, s)
      else
        (case entry_selection (command s) of
           None \<Rightarrow> autocomplete_loop env (format_var (command s) @ char) (suggestions s) s
         | Some (sel_first, sel_last) \<Rightarrow>
            if sel_last \<noteq> length (format_var (command s)) then (Inr None, s)
            else autocomplete_loop env (take sel_first (format_var (command s)) @ char)
                   (suggestions s) s))"

definition on_run_clicked :: "CommandAsker \<Rightarrow> CommandAsker" where
  "on_run_clicked s = s\<lparr>run_clicked := True\<rparr>"


subsection \<open>Opening the dialog\<close>

text \<open>
  What \<^verbatim>\<open>_CommandAsker.__init__\<close> asks of code outside \<^verbatim>\<open>dialog.py\<close>:
  \<^verbatim>\<open>ctx.get_substitutions()\<close> and \<^verbatim>\<open>ctx.key_id\<close>,
  \<^verbatim>\<open>history.get_command_to_repeat(ctx)\<close> and \<^verbatim>\<open>history.get_commands_to_suggest(ctx)\<close>,
  \<^verbatim>\<open>utils.get_binding(f"<<Run:Repeat{key_id}>>")\<close> as a function of \<open>key_id\<close>, and
  the widget that \<^verbatim>\<open>textutils.create_passive_text_widget\<close> returns.
\<close>

record Context =
  ctx_substitutions :: "string \<rightharpoonup> string"
  ctx_key_id :: int
  ctx_command_to_repeat :: "Command option"
  ctx_commands_to_suggest :: "Command list"
  ctx_get_binding :: "nat \<Rightarrow> string"
  ctx_passive_text_widget :: text_widget

text \<open>
  \<^verbatim>\<open>xs[i]\<close> for a list of length \<open>n\<close>: the positions \<open>0\<close> to \<open>n - 1\<close>, which
  \<open>-n\<close> to \<open>-1\<close> name as well; any other index is an \<open>IndexError\<close>.
\<close>

definition list_get :: "'a list \<Rightarrow> int \<Rightarrow> exn + 'a" where
  "list_get xs i =
     (if 0 \<le> i \<and> i < int (length xs) then Inr (xs ! nat i)
      else if - int (length xs) \<le> i \<and> i < 0 then Inr (xs ! nat (int (length xs) + i))
      else Inl IndexError)"

text \<open>
  \<^verbatim>\<open>_FormattingEntryAndLabels.__init__\<close>: an empty variable and entry;
  \<^verbatim>\<open>selection_range(0, "end")\<close> on the empty entry selects nothing.
\<close>

definition FormattingEntryAndLabels_init :: "text_widget \<Rightarrow> FormattingEntryAndLabels" where
  "FormattingEntryAndLabels_init display =
     selection_range 0 0
       \<lparr>format_var = [], entry_insert = 0, entry_selection = None, command_display = display\<rparr>"

text \<open>
  \<^verbatim>\<open>_CommandAsker.__init__\<close>, without the layout. The two calls of \<^verbatim>\<open>validate\<close> at
  its end are direct calls: an exception of theirs leaves the constructor.
\<close>

definition CommandAsker_init :: "'p env \<Rightarrow> Context \<Rightarrow> exn + CommandAsker" where
  "CommandAsker_init env ctx =
     (let bindings = map (ctx_get_binding ctx) [0..<4]
      in case list_get bindings (ctx_key_id ctx) of
        Inl e \<Rightarrow> Inl e
      | Inr binding \<Rightarrow>
         (let s0 = \<lparr>ca_substitutions = ctx_substitutions ctx,
                    command = FormattingEntryAndLabels_init (ctx_passive_text_widget ctx),
                    cwd = FormattingEntryAndLabels_init (ctx_passive_text_widget ctx),
                    terminal_var = False,
                    repeat_bindings = bindings,
                    repeat_var = binding,
                    run_button = Normal,
                    run_clicked = False,
                    suggestions = []\<rparr>
          in case (case ctx_command_to_repeat ctx of
                     None \<Rightarrow> (None, format_var_set env CwdField ''{folder_path}'' s0)
                   | Some previous_command \<Rightarrow>
                       select_command_autocompletion env previous_command [] s0) of
               (Some e, s1) \<Rightarrow> Inl e
             | (None, s1) \<Rightarrow>
                (let s2 = s1\<lparr>suggestions := ctx_commands_to_suggest ctx\<rparr>;
                     s3 = map_field CommandField
                            (\<lambda>f. selection_range 0 (length (format_var f)) f) s2
                 in case validate env CommandField s3 of
                      (Some e, s4) \<Rightarrow> Inl e
                    | (None, s4) \<Rightarrow>
                       (case validate env CwdField s4 of
                          (Some e, s5) \<Rightarrow> Inl e
                        | (None, s5) \<Rightarrow> Inr s5))))"

text \<open>The windows of the application, by Tk path name, and the one that has the focus.\<close>

record gui =
  windows :: "string list"
  focus :: "string option"

text \<open>\<^verbatim>\<open>tkinter.Toplevel(name="run_command_asker")\<close> has this path name.\<close>

definition asker_window :: string where
  "asker_window = ''.run_command_asker''"

text \<open>Creating a top-level window of that name.\<close>

definition Toplevel :: "string \<Rightarrow> gui \<Rightarrow> gui" where
  "Toplevel name g = g\<lparr>windows := name # windows g\<rparr>"

text \<open>
  An environment to run the dialog in: the formatting modelled above, paths as POSIX
  path strings, and the directories that exist.
\<close>

definition posix_env :: "string list \<Rightarrow> Path env" where
  "posix_env dirs =
     \<lparr>env_format_command = format_command,
      env_format_cwd = format_cwd,
      env_str = (\<lambda>p. case p of Path x \<Rightarrow> x),
      env_is_dir = (\<lambda>p. case p of Path x \<Rightarrow> Some (x \<in> set dirs)),
      env_is_absolute = (\<lambda>p. case p of Path x \<Rightarrow> startswith x ''/'')\<rparr>"

text \<open>
  \<^verbatim>\<open>ask_command\<close>. \<open>wait_window\<close> is the event loop that \<^verbatim>\<open>asker.window.wait_window()\<close>
  runs until the window is destroyed: what the user does to the dialog and to the
  application in that time. The window exists as soon as the constructor has started.
\<close>

definition ask_command ::
  "'p env \<Rightarrow> (CommandAsker \<Rightarrow> gui \<Rightarrow> CommandAsker \<times> gui) \<Rightarrow> Context \<Rightarrow> gui
     \<Rightarrow> (exn + (Command \<times> nat) option) \<times> gui" where
  "ask_command env wait_window ctx g =
     (if asker_window \<in> set (windows g)
      then (Inr None, g\<lparr>focus := Some asker_window\<rparr>)
      else
        (let g1 = Toplevel asker_window g
         in case CommandAsker_init env ctx of
              Inl e \<Rightarrow> (Inl e, g1)
            | Inr asker \<Rightarrow>
               (case wait_window asker g1 of
                  (asker', g2) \<Rightarrow>
                    if run_clicked asker'
                    then (case get_key_id asker' of
                            Inl e \<Rightarrow> (Inl e, g2)
                          | Inr key_id \<Rightarrow> (Inr (Some (get_command asker', key_id)), g2))
                    else (Inr None, g2))))"

section \<open>Notions used to state the properties\<close>

text \<open>The display of one of the two fields of the dialog.\<close>

definition display_of :: "field \<Rightarrow> CommandAsker \<Rightarrow> text_widget" where
  "display_of fld s = command_display (get_field fld s)"

text \<open>
  \<^verbatim>\<open>text_to_keep + event.char\<close> in \<^verbatim>\<open>_autocomplete\<close>: the text of the entry before
  the selection, followed by the typed character.
\<close>

definition typed_prefix :: "string \<Rightarrow> CommandAsker \<Rightarrow> string" where
  "typed_prefix char s =
     (case entry_selection (command s) of
        None \<Rightarrow> format_var (command s)
      | Some (sel_first, sel_last) \<Rightarrow> take sel_first (format_var (command s))) @ char"

text \<open>
  The keystroke is a single printable character, and a selection, if there is one,
  reaches the end of the entry.
\<close>

definition autocomplete_applies :: "string \<Rightarrow> CommandAsker \<Rightarrow> bool" where
  "autocomplete_applies char s \<longleftrightarrow>
     length char = 1 \<and> isprintable char
     \<and> (case entry_selection (command s) of
          None \<Rightarrow> True
        | Some (sel_first, sel_last) \<Rightarrow> sel_last = length (format_var (command s)))"

text \<open>There is at most one window of the dialog's name.\<close>

definition one_asker_window :: "gui \<Rightarrow> bool" where
  "one_asker_window g \<longleftrightarrow> count_list (windows g) asker_window \<le> 1"

text \<open>\<^verbatim>\<open>blocking_function\<close> returns, or raises an instance of \<open>Exception\<close>.\<close>

definition rit_caught :: "exn + 'v \<Rightarrow> bool" where
  "rit_caught outcome = (case outcome of Inr v \<Rightarrow> True | Inl e \<Rightarrow> is_Exception e)"

text \<open>
  What holds in every state of \<^verbatim>\<open>run_in_thread\<close>: \<^verbatim>\<open>result\<close> is empty until the
  worker stores into it, one \<^verbatim>\<open>check\<close> is waiting in the main loop from
  \<^verbatim>\<open>after_idle\<close> until the callback is called, and the callback has been called at
  most once, with \<^verbatim>\<open>result\<close>, after the thread has ended.
\<close>

definition rit_inv :: "(exn + 'v) \<Rightarrow> (exn \<Rightarrow> string) \<Rightarrow> 'v rit_state \<Rightarrow> bool" where
  "rit_inv outcome format_exc s \<longleftrightarrow>
     (case thread s of
        Running \<Rightarrow> result s = [] \<and> uncaught s = None
      | Stored \<Rightarrow> rit_caught outcome \<and> result s = expected_args format_exc outcome
                 \<and> uncaught s = None
      | Exited \<Rightarrow>
          (if rit_caught outcome
           then result s = expected_args format_exc outcome \<and> uncaught s = None
           else result s = [] \<and> (\<exists>e. outcome = Inl e \<and> uncaught s = Some e)))
     \<and> (if scheduled s then length (pending s) + length (calls s) = 1
         else pending s = [] \<and> calls s = [])
     \<and> (calls s \<noteq> [] \<longrightarrow> thread s = Exited \<and> calls s = [result s])"

subsection \<open>Examples\<close>

text \<open>A file system with one file, and a body that writes to the file and then raises.\<close>

definition example_fs :: filesystem where
  "example_fs = fmupd ''a.txt'' ''old'' fmempty"

definition example_body :: "exn \<Rightarrow> path \<Rightarrow> filesystem \<Rightarrow> exn option \<times> filesystem" where
  "example_body e file fs = (Some e, fmupd file ''par'' fs)"

text \<open>
  A dialog with \<^verbatim>\<open>ls\<close> typed into the command entry, and two commands of the history
  to suggest.
\<close>

definition example_field :: "string \<Rightarrow> FormattingEntryAndLabels" where
  "example_field v =
     \<lparr>format_var = v, entry_insert = length v, entry_selection = None,
      command_display = \<lparr>tw_text = [], tw_state = Disabled, tw_font = ''TkFixedFont''\<rparr>\<rparr>"

definition example_suggestions :: "Command list" where
  "example_suggestions =
     [\<lparr>command_format = ''make'', cwd_format = ''{project_path}'',
       external_terminal = False, substitutions = Map.empty\<rparr>,
      \<lparr>command_format = ''ls {folder_path}'', cwd_format = ''/'',
       external_terminal = True, substitutions = Map.empty\<rparr>]"

definition example_asker :: "string \<Rightarrow> CommandAsker" where
  "example_asker v =
     \<lparr>ca_substitutions = [''folder_path'' \<mapsto> ''/tmp''],
      command = example_field v,
      cwd = example_field ''{folder_path}'',
      terminal_var = False,
      repeat_bindings = [''F5'', ''F6'', ''F7'', ''F8''],
      repeat_var = ''F5'',
      run_button = Disabled,
      run_clicked = False,
      suggestions = example_suggestions\<rparr>"



text \<open>A context, the windows of the application, and a user who closes the dialog.\<close>

definition example_ctx :: Context where
  "example_ctx =
     \<lparr>ctx_substitutions = [''folder_path'' \<mapsto> ''/tmp''],
      ctx_key_id = 0,
      ctx_command_to_repeat = None,
      ctx_commands_to_suggest = example_suggestions,
      ctx_get_binding = (\<lambda>key_id. ''F'' @ [char_of (53 + key_id)]),
      ctx_passive_text_widget = \<lparr>tw_text = [], tw_state = Disabled, tw_font = ''TkFixedFont''\<rparr>\<rparr>"

definition example_gui :: "string list \<Rightarrow> gui" where
  "example_gui ws = \<lparr>windows = ws, focus = None\<rparr>"

definition example_wait_window :: "CommandAsker \<Rightarrow> gui \<Rightarrow> CommandAsker \<times> gui" where
  "example_wait_window asker g = (asker, g\<lparr>windows := remove1 asker_window (windows g)\<rparr>)"

definition example_format_exc :: "exn \<Rightarrow> string" where
  "example_format_exc e = ''Traceback (most recent call last):''"

text \<open>
  A schedule for a function that returns: the worker stores the result, the main
  thread calls \<^verbatim>\<open>after_idle\<close>, the main loop polls once, the worker ends, and the main
  loop polls again.
\<close>

definition example_schedule :: "actor list" where
  "example_schedule =
     [Worker, RunInThread, MainLoop AfterIdle, Worker, MainLoop (After 100)]"

declare has_non_dot.simps [simp del]
declare backup_name.simps [simp del]

section \<open>Properties of backup\_open\<close>

lemma splitext_append: "fst (splitext p) @ snd (splitext p) = p"
  by (simp add: splitext_def Let_def)

lemma backup_name_fresh: "\<not> path_exists fs (backup_name fs name ext @ ext)"
proof (induction fs name ext rule: backup_name.induct)
  case (1 fs name ext)
  show ?case
  proof (cases "path_exists fs (name @ ext)")
    case True
    with 1 show ?thesis by (subst backup_name.simps) simp
  next
    case False
    then show ?thesis by (subst backup_name.simps) simp
  qed
qed

lemma backup_path_fresh: "fmlookup fs (backup_path fs p) = None"
  using backup_name_fresh [of fs]
  by (simp add: backup_path_def path_exists_def split: prod.splits)

lemma backup_path_neq: "fmlookup fs p = Some old \<Longrightarrow> backup_path fs p \<noteq> p"
  using backup_path_fresh [of fs p] by auto

lemma restore_and_raise_Exception:
  assumes "is_Exception e" and "fmlookup fs3 bp = Some old" and "bp \<noteq> p"
  shows "restore_and_raise e bp p fs3 = (Some e, fmupd p old (fmdrop bp fs3))"
  using assms by (simp add: restore_and_raise_def shutil_move_def)

lemma py_open_raises_same: "py_open p mode fs = (Inl e, fs') \<Longrightarrow> fs' = fs"
  by (cases mode) (auto split: if_splits)

lemma backup_open_raising:
  assumes ex: "fmlookup fs p = Some old"
    and run: "open_and_body p mode body (fmupd (backup_path fs p) old fs) = (Some e, fs3)"
  shows "backup_open p mode body fs = restore_and_raise e (backup_path fs p) p fs3"
  using ex run
  by (auto simp: backup_open_def open_and_body_def path_exists_def shutil_copy_def Let_def
      split: prod.splits sum.splits option.splits)

text \<open>When \<^verbatim>\<open>open\<close> itself raises, the backup copy is as it was written.\<close>

lemma open_raises_kept:
  assumes "fmlookup fs p = Some old"
    and "py_open p mode (fmupd (backup_path fs p) old fs) = (Inl e, fs3)"
  shows "open_and_body p mode body (fmupd (backup_path fs p) old fs) = (Some e, fs3)
     \<and> fmlookup fs3 (backup_path fs p) = Some old"
  using assms py_open_raises_same [OF assms(2)] by (simp add: open_and_body_def)

lemma example_backup_path: "backup_path example_fs ''a.txt'' = ''a-backup.txt''"
  by (simp add: example_fs_def backup_path_def splitext_def rfind_def has_non_dot.simps
      upt_rec backup_name.simps path_exists_def)

text \<open>
  C1, as amended. Let a file exist at \<open>p\<close> with bytes \<open>old\<close>, so that
  \<^verbatim>\<open>backup_open\<close> copies it to the backup path. If the call of \<^verbatim>\<open>open\<close> raises an
  exception \<open>e\<close> that is an instance of \<open>Exception\<close>, or if the body of the
  \<^verbatim>\<open>with\<close> statement raises such an exception and the backup copy still holds
  \<open>old\<close> at that moment, then \<open>e\<close> leaves the \<^verbatim>\<open>with\<close> statement, the file at
  \<open>p\<close> holds \<open>old\<close> again, and nothing is left under the backup path.
\<close>

theorem backup_open_restores:
  assumes ex: "fmlookup fs p = Some old"
    and exc: "is_Exception e"
    and run: "py_open p mode (fmupd (backup_path fs p) old fs) = (Inl e, fs3)
       \<or> (\<exists>file fs2. py_open p mode (fmupd (backup_path fs p) old fs) = (Inr file, fs2)
             \<and> body file fs2 = (Some e, fs3)
             \<and> fmlookup fs3 (backup_path fs p) = Some old)"
  shows "fst (backup_open p mode body fs) = Some e
    \<and> fmlookup (snd (backup_open p mode body fs)) p = Some old
    \<and> fmlookup (snd (backup_open p mode body fs)) (backup_path fs p) = None"
proof -
  have neq: "backup_path fs p \<noteq> p" using ex by (rule backup_path_neq)
  have ob: "open_and_body p mode body (fmupd (backup_path fs p) old fs) = (Some e, fs3)
      \<and> fmlookup fs3 (backup_path fs p) = Some old"
    using run
  proof
    assume "py_open p mode (fmupd (backup_path fs p) old fs) = (Inl e, fs3)"
    with ex show ?thesis by (rule open_raises_kept)
  next
    assume "\<exists>file fs2. py_open p mode (fmupd (backup_path fs p) old fs) = (Inr file, fs2)
             \<and> body file fs2 = (Some e, fs3)
             \<and> fmlookup fs3 (backup_path fs p) = Some old"
    then show ?thesis by (auto simp: open_and_body_def)
  qed
  then have "backup_open p mode body fs = restore_and_raise e (backup_path fs p) p fs3"
    using ex by (simp add: backup_open_raising)
  also have "\<dots> = (Some e, fmupd p old (fmdrop (backup_path fs p) fs3))"
    using exc ob neq by (simp add: restore_and_raise_Exception)
  finally show ?thesis using neq by simp
qed

theorem backup_open_restores_witness:
  "fmlookup example_fs ''a.txt'' = Some ''old''
   \<and> is_Exception OSError
   \<and> py_open ''a.txt'' ModeW (fmupd (backup_path example_fs ''a.txt'') ''old'' example_fs)
       = (Inr ''a.txt'', fmupd ''a.txt'' [] (fmupd ''a-backup.txt'' ''old'' example_fs))
   \<and> fst (example_body OSError ''a.txt''
        (fmupd ''a.txt'' [] (fmupd ''a-backup.txt'' ''old'' example_fs))) = Some OSError
   \<and> fst (backup_open ''a.txt'' ModeW (example_body OSError) example_fs) = Some OSError
   \<and> fmlookup (snd (backup_open ''a.txt'' ModeW (example_body OSError) example_fs)) ''a.txt''
       = Some ''old''
   \<and> fmlookup (snd (backup_open ''a.txt'' ModeW (example_body OSError) example_fs))
       ''a-backup.txt'' = None
   \<and> is_Exception FileExistsError
   \<and> fst (py_open ''a.txt'' ModeX (fmupd (backup_path example_fs ''a.txt'') ''old'' example_fs))
       = Inl FileExistsError
   \<and> fst (backup_open ''a.txt'' ModeX (example_body OSError) example_fs)
       = Some FileExistsError
   \<and> fmlookup (snd (backup_open ''a.txt'' ModeX (example_body OSError) example_fs)) ''a.txt''
       = Some ''old''
   \<and> fmlookup (snd (backup_open ''a.txt'' ModeX (example_body OSError) example_fs))
       ''a-backup.txt'' = None"
  using backup_open_restores [where fs = example_fs and p = "''a.txt''" and old = "''old''"
      and mode = ModeW and body = "example_body OSError" and e = OSError
      and ?fs3.0 = "fmupd ''a.txt'' ''par''
        (fmupd ''a.txt'' [] (fmupd ''a-backup.txt'' ''old'' example_fs))"]
    backup_open_restores [where fs = example_fs and p = "''a.txt''" and old = "''old''"
      and mode = ModeX and body = "example_body OSError" and e = FileExistsError
      and ?fs3.0 = "fmupd ''a-backup.txt'' ''old'' example_fs"]
  by (simp add: example_backup_path example_body_def path_exists_def)
     (simp add: example_fs_def)

text \<open>
  C1, as it is written, fails for an exception that is not an instance of \<open>Exception\<close>:
  the body writes to the file and raises \<open>KeyboardInterrupt\<close>. The exception leaves the
  \<^verbatim>\<open>with\<close> statement, the file keeps what the body wrote, and the backup copy stays
  under its backup name.
\<close>

theorem backup_open_counterexample:
  "fmlookup example_fs ''a.txt'' = Some ''old''
   \<and> backup_path example_fs ''a.txt'' = ''a-backup.txt''
   \<and> fst (open_and_body ''a.txt'' ModeW (example_body KeyboardInterrupt)
        (fmupd ''a-backup.txt'' ''old'' example_fs)) = Some KeyboardInterrupt
   \<and> fst (backup_open ''a.txt'' ModeW (example_body KeyboardInterrupt) example_fs)
       = Some KeyboardInterrupt
   \<and> fmlookup (snd (backup_open ''a.txt'' ModeW (example_body KeyboardInterrupt) example_fs))
       ''a.txt'' = Some ''par''
   \<and> fmlookup (snd (backup_open ''a.txt'' ModeW (example_body KeyboardInterrupt) example_fs))
       ''a-backup.txt'' = Some ''old''"
  by (simp add: example_backup_path [unfolded example_fs_def] open_and_body_def
      backup_open_def path_exists_def shutil_copy_def restore_and_raise_def
      example_body_def example_fs_def)


section \<open>Properties of run\_in\_thread\<close>

lemma rit_inv_init: "rit_inv outcome format_exc rit_init"
  by (simp add: rit_inv_def rit_init_def)

lemma length_remove1_mem: "t \<in> set xs \<Longrightarrow> Suc (length (remove1 t xs)) = length xs"
  by (induction xs) auto

lemma rit_inv_thread_target:
  assumes "thread_target outcome format_exc s = Some s'" and "rit_inv outcome format_exc s"
  shows "rit_inv outcome format_exc s'"
  using assms
  by (cases "thread s"; cases outcome)
     (auto simp: thread_target_def rit_inv_def rit_caught_def split: if_splits)

lemma rit_inv_after_idle:
  assumes "after_idle s = Some s'" and "rit_inv outcome format_exc s"
  shows "rit_inv outcome format_exc s'"
  using assms
  by (cases "thread s") (auto simp: after_idle_def rit_inv_def split: if_splits)

lemma rit_inv_check:
  assumes "check t s = Some s'" and "rit_inv outcome format_exc s"
  shows "rit_inv outcome format_exc s'"
proof (cases "thread s = Exited")
  case False
  with assms show ?thesis
    using length_remove1_mem [of t "pending s"]
    by (cases "thread s") (auto simp: check_def rit_inv_def split: if_splits)
next
  case True
  from assms have t: "t \<in> set (pending s)" by (auto simp: check_def split: if_splits)
  then have "scheduled s" using assms(2) by (auto simp: rit_inv_def split: if_splits)
  with assms(2) have "length (pending s) + length (calls s) = 1"
    by (simp add: rit_inv_def)
  with t have c: "calls s = []" and p: "remove1 t (pending s) = []"
    using length_remove1_mem [of t "pending s"] by (cases "calls s"; simp)+
  from assms True t c p show ?thesis
    by (auto simp: check_def rit_inv_def split: if_splits)
qed

lemma rit_inv_step:
  assumes "rit_step outcome format_exc a s = Some s'" and "rit_inv outcome format_exc s"
  shows "rit_inv outcome format_exc s'"
  using assms
  by (cases a) (auto intro: rit_inv_thread_target rit_inv_after_idle rit_inv_check)

lemma rit_inv_run:
  "rit_run outcome format_exc schedule s = Some s' \<Longrightarrow> rit_inv outcome format_exc s \<Longrightarrow>
   rit_inv outcome format_exc s'"
proof (induction schedule arbitrary: s)
  case Nil
  then show ?case by simp
next
  case (Cons a schedule)
  then show ?case by (auto split: option.splits dest: rit_inv_step)
qed

lemma rit_run_append:
  "rit_run outcome format_exc (xs @ ys) s =
     (case rit_run outcome format_exc xs s of
        None \<Rightarrow> None
      | Some s' \<Rightarrow> rit_run outcome format_exc ys s')"
  by (induction xs arbitrary: s) (auto split: option.splits)

lemma step_calls_change:
  assumes "rit_step outcome format_exc a s = Some s'" and "calls s' \<noteq> calls s"
  shows "(\<exists>t. a = MainLoop t \<and> t \<in> set (pending s)) \<and> thread s = Exited
     \<and> calls s' = calls s @ [result s]"
  using assms
  by (cases a)
     (auto simp: thread_target_def after_idle_def check_def
       split: thread_phase.splits sum.splits if_splits)

lemma step_check_alive:
  assumes "rit_step outcome format_exc (MainLoop t) s = Some s'" and "thread s \<noteq> Exited"
  shows "calls s' = calls s \<and> After 100 \<in> set (pending s') \<and> thread s' = thread s"
  using assms by (auto simp: check_def split: if_splits)

text \<open>The worker can always run to its end, and the main thread can always schedule.\<close>

lemma worker_can_exit:
  assumes "rit_caught outcome"
  shows "\<exists>ws s1. rit_run outcome format_exc ws s = Some s1 \<and> thread s1 = Exited"
proof (cases "thread s")
  case Running
  then have "\<exists>s1. rit_run outcome format_exc [Worker, Worker] s = Some s1 \<and> thread s1 = Exited"
    using assms
    by (cases outcome) (auto simp: thread_target_def rit_caught_def)
  then show ?thesis by blast
next
  case Stored
  then have "\<exists>s1. rit_run outcome format_exc [Worker] s = Some s1 \<and> thread s1 = Exited"
    by (auto simp: thread_target_def)
  then show ?thesis by blast
next
  case Exited
  then have "rit_run outcome format_exc [] s = Some s \<and> thread s = Exited" by simp
  then show ?thesis by blast
qed

lemma can_schedule:
  "\<exists>ms s1. rit_run outcome format_exc ms s = Some s1 \<and> scheduled s1 \<and> thread s1 = thread s"
proof (cases "scheduled s")
  case True
  then have "rit_run outcome format_exc [] s = Some s \<and> scheduled s \<and> thread s = thread s"
    by simp
  then show ?thesis by blast
next
  case False
  then have "\<exists>s1. rit_run outcome format_exc [RunInThread] s = Some s1 \<and> scheduled s1
      \<and> thread s1 = thread s"
    by (auto simp: after_idle_def)
  then show ?thesis by blast
qed

lemma can_call:
  assumes inv: "rit_inv outcome format_exc s" and "thread s = Exited" and "scheduled s"
    and "rit_caught outcome"
  shows "\<exists>cs s'. rit_run outcome format_exc cs s = Some s'
           \<and> calls s' = [expected_args format_exc outcome]"
proof (cases "calls s")
  case Nil
  with inv assms have "length (pending s) = 1" by (simp add: rit_inv_def)
  then obtain t where t: "pending s = [t]" by (cases "pending s") auto
  have res: "result s = expected_args format_exc outcome"
    using inv assms by (simp add: rit_inv_def)
  have "\<exists>s'. rit_run outcome format_exc [MainLoop t] s = Some s'
      \<and> calls s' = [expected_args format_exc outcome]"
    using t assms Nil res by (simp add: check_def)
  then show ?thesis by blast
next
  case (Cons c cs)
  with inv assms have "rit_run outcome format_exc [] s = Some s
      \<and> calls s = [expected_args format_exc outcome]"
    by (simp add: rit_inv_def)
  then show ?thesis by blast
qed

lemma can_finish:
  assumes r: "rit_inv outcome format_exc s" and c: "rit_caught outcome"
  shows "\<exists>rest s'. rit_run outcome format_exc rest s = Some s'
           \<and> calls s' = [expected_args format_exc outcome]"
proof -
  obtain ws s1 where 1: "rit_run outcome format_exc ws s = Some s1" "thread s1 = Exited"
    using worker_can_exit [OF c] by blast
  obtain ms s2 where 2: "rit_run outcome format_exc ms s1 = Some s2" "scheduled s2"
      "thread s2 = thread s1"
    using can_schedule by blast
  have "rit_inv outcome format_exc s2"
    using r 1 2 rit_inv_run by blast
  then obtain cs s3 where 3: "rit_run outcome format_exc cs s2 = Some s3"
      "calls s3 = [expected_args format_exc outcome]"
    using can_call 1 2 c by metis
  from 1 2 3 have "rit_run outcome format_exc (ws @ ms @ cs) s = Some s3"
    by (simp add: rit_run_append)
  with 3 show ?thesis by blast
qed

lemma example_run:
  "rit_run (Inr (7::nat)) example_format_exc example_schedule rit_init
     = Some \<lparr>thread = Exited, result = [PyBool True, PyObj 7], uncaught = None,
             scheduled = True, pending = [], calls = [[PyBool True, PyObj 7]]\<rparr>"
  by (simp add: example_schedule_def rit_init_def thread_target_def after_idle_def check_def)

lemma example_run_polling:
  "rit_run (Inr (7::nat)) example_format_exc (take 2 example_schedule) rit_init
     = Some \<lparr>thread = Stored, result = [PyBool True, PyObj 7], uncaught = None,
             scheduled = True, pending = [AfterIdle], calls = []\<rparr>"
  by (simp add: example_schedule_def rit_init_def thread_target_def after_idle_def check_def)

lemma example_run_exited:
  "rit_run (Inr (7::nat)) example_format_exc (take 4 example_schedule) rit_init
     = Some \<lparr>thread = Exited, result = [PyBool True, PyObj 7], uncaught = None,
             scheduled = True, pending = [After 100], calls = []\<rparr>"
  by (simp add: example_schedule_def rit_init_def thread_target_def after_idle_def check_def)

lemma example_run_uncaught:
  "rit_run (Inl KeyboardInterrupt) example_format_exc [Worker] (rit_init :: nat rit_state)
     = Some \<lparr>thread = Exited, result = [], uncaught = Some KeyboardInterrupt,
             scheduled = False, pending = [], calls = []\<rparr>"
  by (simp add: rit_init_def thread_target_def)

text \<open>
  C4. In every state that a call of \<^verbatim>\<open>run_in_thread\<close> reaches, whatever the schedule,
  \<^verbatim>\<open>done_callback\<close> has been called at most once, and if it has been called the worker
  thread has ended. The only step that calls it is a \<^verbatim>\<open>check\<close> that the main loop runs
  from a waiting timer or idle callback, when the thread has ended and there was no
  call before. A \<^verbatim>\<open>check\<close> that finds the thread alive calls nothing and leaves
  \<^verbatim>\<open>after(100, check)\<close> waiting, so that the main loop polls again, for as long as the
  thread is alive.
\<close>

theorem done_callback_once_after_exit:
  assumes "rit_run outcome format_exc schedule rit_init = Some s"
  shows "length (calls s) \<le> 1
    \<and> (calls s \<noteq> [] \<longrightarrow> thread s = Exited)
    \<and> (\<forall>a s'. rit_step outcome format_exc a s = Some s' \<and> calls s' \<noteq> calls s \<longrightarrow>
          (\<exists>t. a = MainLoop t \<and> t \<in> set (pending s)) \<and> thread s = Exited \<and> calls s = [])
    \<and> (\<forall>t s'. rit_step outcome format_exc (MainLoop t) s = Some s' \<and> thread s \<noteq> Exited \<longrightarrow>
          calls s' = calls s \<and> After 100 \<in> set (pending s') \<and> thread s' = thread s)"
proof -
  have inv: "rit_inv outcome format_exc s"
    using assms rit_inv_init by (rule rit_inv_run)
  have l: "length (calls s) \<le> 1"
    using inv by (auto simp: rit_inv_def split: if_splits)
  have e: "calls s \<noteq> [] \<longrightarrow> thread s = Exited"
    using inv by (simp add: rit_inv_def)
  have c: "\<forall>a s'. rit_step outcome format_exc a s = Some s' \<and> calls s' \<noteq> calls s \<longrightarrow>
          (\<exists>t. a = MainLoop t \<and> t \<in> set (pending s)) \<and> thread s = Exited \<and> calls s = []"
  proof (intro allI impI)
    fix a s' assume st: "rit_step outcome format_exc a s = Some s' \<and> calls s' \<noteq> calls s"
    then have ch: "(\<exists>t. a = MainLoop t \<and> t \<in> set (pending s)) \<and> thread s = Exited
       \<and> calls s' = calls s @ [result s]"
      using step_calls_change by blast
    have "rit_inv outcome format_exc s'" using st inv rit_inv_step by blast
    then have "length (calls s') \<le> 1" by (auto simp: rit_inv_def split: if_splits)
    with ch have "calls s = []" by (cases "calls s") auto
    with ch show "(\<exists>t. a = MainLoop t \<and> t \<in> set (pending s)) \<and> thread s = Exited
        \<and> calls s = []"
      by blast
  qed
  have p: "\<forall>t s'. rit_step outcome format_exc (MainLoop t) s = Some s' \<and> thread s \<noteq> Exited \<longrightarrow>
          calls s' = calls s \<and> After 100 \<in> set (pending s') \<and> thread s' = thread s"
    using step_check_alive by blast
  from l e c p show ?thesis by blast
qed

theorem done_callback_once_after_exit_witness:
  "rit_run (Inr (7::nat)) example_format_exc example_schedule rit_init
     = Some \<lparr>thread = Exited, result = [PyBool True, PyObj 7], uncaught = None,
             scheduled = True, pending = [], calls = [[PyBool True, PyObj 7]]\<rparr>
 \<and> length (calls \<lparr>thread = Exited, result = [PyBool True, PyObj (7::nat)], uncaught = None,
             scheduled = True, pending = [], calls = [[PyBool True, PyObj 7]]\<rparr>) \<le> 1
 \<and> rit_run (Inr (7::nat)) example_format_exc (take 4 example_schedule) rit_init
     = Some \<lparr>thread = Exited, result = [PyBool True, PyObj 7], uncaught = None,
             scheduled = True, pending = [After 100], calls = []\<rparr>
 \<and> rit_step (Inr (7::nat)) example_format_exc (MainLoop (After 100))
      \<lparr>thread = Exited, result = [PyBool True, PyObj 7], uncaught = None,
       scheduled = True, pending = [After 100], calls = []\<rparr>
     = Some \<lparr>thread = Exited, result = [PyBool True, PyObj 7], uncaught = None,
             scheduled = True, pending = [], calls = [[PyBool True, PyObj 7]]\<rparr>
 \<and> rit_run (Inr (7::nat)) example_format_exc (take 2 example_schedule) rit_init
     = Some \<lparr>thread = Stored, result = [PyBool True, PyObj 7], uncaught = None,
             scheduled = True, pending = [AfterIdle], calls = []\<rparr>
 \<and> rit_step (Inr (7::nat)) example_format_exc (MainLoop AfterIdle)
      \<lparr>thread = Stored, result = [PyBool True, PyObj 7], uncaught = None,
       scheduled = True, pending = [AfterIdle], calls = []\<rparr>
     = Some \<lparr>thread = Stored, result = [PyBool True, PyObj 7], uncaught = None,
             scheduled = True, pending = [After 100], calls = []\<rparr>"
proof -
  have l: "length (calls \<lparr>thread = Exited, result = [PyBool True, PyObj (7::nat)],
      uncaught = None, scheduled = True, pending = [], calls = [[PyBool True, PyObj 7]]\<rparr>) \<le> 1"
    using done_callback_once_after_exit [OF example_run] by (rule conjunct1)
  have c: "rit_step (Inr (7::nat)) example_format_exc (MainLoop (After 100))
      \<lparr>thread = Exited, result = [PyBool True, PyObj 7], uncaught = None,
       scheduled = True, pending = [After 100], calls = []\<rparr>
     = Some \<lparr>thread = Exited, result = [PyBool True, PyObj 7], uncaught = None,
             scheduled = True, pending = [], calls = [[PyBool True, PyObj 7]]\<rparr>"
    by (simp add: check_def)
  have p: "rit_step (Inr (7::nat)) example_format_exc (MainLoop AfterIdle)
      \<lparr>thread = Stored, result = [PyBool True, PyObj 7], uncaught = None,
       scheduled = True, pending = [AfterIdle], calls = []\<rparr>
     = Some \<lparr>thread = Stored, result = [PyBool True, PyObj 7], uncaught = None,
             scheduled = True, pending = [After 100], calls = []\<rparr>"
    by (simp add: check_def)
  from l c p example_run example_run_exited example_run_polling
  show ?thesis by blast
qed

text \<open>
  C9. In every state that a call of \<^verbatim>\<open>run_in_thread\<close> reaches, every call of
  \<^verbatim>\<open>done_callback\<close> made so far had the arguments \<open>(True, value)\<close> if
  \<^verbatim>\<open>blocking_function\<close> returns \<open>value\<close>, and \<open>(False, s)\<close> with \<open>s\<close> the formatted
  traceback if it raises an instance of \<open>Exception\<close>; an exception that has left the
  worker thread is not an instance of \<open>Exception\<close>. And when \<^verbatim>\<open>blocking_function\<close>
  returns or raises an instance of \<open>Exception\<close>, the steps that remain lead from the
  state to one where the callback has been called with these arguments.
\<close>

theorem done_callback_arguments:
  assumes "rit_run outcome format_exc schedule rit_init = Some s"
  shows "(\<forall>v. outcome = Inr v \<longrightarrow> (\<forall>args \<in> set (calls s). args = [PyBool True, PyObj v]))
    \<and> (\<forall>e. outcome = Inl e \<and> is_Exception e \<longrightarrow>
          (\<forall>args \<in> set (calls s). args = [PyBool False, PyStr (format_exc e)]))
    \<and> (\<forall>e. uncaught s = Some e \<longrightarrow> \<not> is_Exception e)
    \<and> (rit_caught outcome \<longrightarrow>
          (\<exists>rest s'. rit_run outcome format_exc rest s = Some s'
             \<and> calls s' = [expected_args format_exc outcome]))"
proof -
  have inv: "rit_inv outcome format_exc s"
    using assms rit_inv_init by (rule rit_inv_run)
  have a: "\<forall>v. outcome = Inr v \<longrightarrow> (\<forall>args \<in> set (calls s). args = [PyBool True, PyObj v])"
    using inv by (cases "calls s") (auto simp: rit_inv_def rit_caught_def split: if_splits)
  have b: "\<forall>e. outcome = Inl e \<and> is_Exception e \<longrightarrow>
          (\<forall>args \<in> set (calls s). args = [PyBool False, PyStr (format_exc e)])"
    using inv by (cases "calls s") (auto simp: rit_inv_def rit_caught_def split: if_splits)
  have c: "\<forall>e. uncaught s = Some e \<longrightarrow> \<not> is_Exception e"
    using inv
    by (cases "thread s") (auto simp: rit_inv_def rit_caught_def split: if_splits)
  have d: "rit_caught outcome \<longrightarrow>
          (\<exists>rest s'. rit_run outcome format_exc rest s = Some s'
             \<and> calls s' = [expected_args format_exc outcome])"
    using inv can_finish by blast
  from a b c d show ?thesis by blast
qed

theorem done_callback_arguments_witness:
  "rit_run (Inr (7::nat)) example_format_exc example_schedule rit_init
     = Some \<lparr>thread = Exited, result = [PyBool True, PyObj 7], uncaught = None,
             scheduled = True, pending = [], calls = [[PyBool True, PyObj 7]]\<rparr>
 \<and> rit_run (Inl OSError) example_format_exc [] (rit_init :: nat rit_state) = Some rit_init
 \<and> is_Exception OSError \<and> rit_caught (Inl OSError :: exn + nat)
 \<and> (\<exists>rest s'. rit_run (Inl OSError) example_format_exc rest (rit_init :: nat rit_state) = Some s'
        \<and> calls s' = [[PyBool False, PyStr (example_format_exc OSError)]])
 \<and> rit_run (Inl KeyboardInterrupt) example_format_exc [Worker] (rit_init :: nat rit_state)
     = Some \<lparr>thread = Exited, result = [], uncaught = Some KeyboardInterrupt,
             scheduled = False, pending = [], calls = []\<rparr>
 \<and> \<not> is_Exception KeyboardInterrupt"
proof -
  have o: "rit_run (Inl OSError) example_format_exc [] (rit_init :: nat rit_state) = Some rit_init"
    by simp
  have k: "rit_caught (Inl OSError :: exn + nat)" by (simp add: rit_caught_def)
  have p: "\<exists>rest s'. rit_run (Inl OSError) example_format_exc rest (rit_init :: nat rit_state)
        = Some s'
      \<and> calls s' = [[PyBool False, PyStr (example_format_exc OSError)]]"
    using done_callback_arguments [OF o] k by simp
  have u: "\<not> is_Exception KeyboardInterrupt"
    using done_callback_arguments [OF example_run_uncaught] by simp
  have e: "is_Exception OSError" by simp
  from example_run o e k p example_run_uncaught u
  show ?thesis by blast
qed

section \<open>Properties of the dialog\<close>

lemma show_error_text:
  "tw_text (show_error w) = ''Substitution error'' \<and> tw_state (show_error w) = Disabled"
  by (simp add: show_error_def tw_config_def tw_delete_all_def tw_insert_start_def)

lemma show_value_text: "tw_text (show_value v w) = v \<and> tw_state (show_value v w) = Disabled"
  by (simp add: show_value_def tw_config_def tw_delete_all_def tw_insert_start_def)

lemma update_run_button_fields:
  "command (snd (update_run_button env s)) = command s"
  "cwd (snd (update_run_button env s)) = cwd s"
  "terminal_var (snd (update_run_button env s)) = terminal_var s"
  "ca_substitutions (snd (update_run_button env s)) = ca_substitutions s"
  "repeat_var (snd (update_run_button env s)) = repeat_var s"
  "repeat_bindings (snd (update_run_button env s)) = repeat_bindings s"
  "suggestions (snd (update_run_button env s)) = suggestions s"
  "run_clicked (snd (update_run_button env s)) = run_clicked s"
  by (simp_all add: update_run_button_def split: sum.splits)

lemma get_field_update_run_button:
  "get_field fld (snd (update_run_button env s)) = get_field fld s"
  by (cases fld) (simp_all add: update_run_button_fields)

lemma get_field_map_field: "get_field fld (map_field fld g s) = g (get_field fld s)"
  by (cases fld) simp_all

lemma validate_caught:
  assumes "get_substituted_value env fld s = Inl e" and "is_substitution_error e"
  shows "validate env fld s = update_run_button env
           (map_field fld (\<lambda>f. f\<lparr>command_display := show_error (command_display f)\<rparr>) s)"
  using assms by (simp add: validate_def)

lemma validate_value:
  assumes "get_substituted_value env fld s = Inr v"
  shows "validate env fld s = update_run_button env
           (map_field fld (\<lambda>f. f\<lparr>command_display := show_value v (command_display f)\<rparr>) s)"
  using assms by (simp add: validate_def)

text \<open>\<^verbatim>\<open>validate\<close> changes the two displays and the Run button, and nothing else.\<close>

lemma validate_entry:
  "format_var (command (snd (validate env fld s))) = format_var (command s)"
  "entry_insert (command (snd (validate env fld s))) = entry_insert (command s)"
  "entry_selection (command (snd (validate env fld s))) = entry_selection (command s)"
  "format_var (cwd (snd (validate env fld s))) = format_var (cwd s)"
  "entry_insert (cwd (snd (validate env fld s))) = entry_insert (cwd s)"
  "entry_selection (cwd (snd (validate env fld s))) = entry_selection (cwd s)"
  "terminal_var (snd (validate env fld s)) = terminal_var s"
  "suggestions (snd (validate env fld s)) = suggestions s"
  "ca_substitutions (snd (validate env fld s)) = ca_substitutions s"
  "repeat_var (snd (validate env fld s)) = repeat_var s"
  "repeat_bindings (snd (validate env fld s)) = repeat_bindings s"
  "run_clicked (snd (validate env fld s)) = run_clicked s"
  by (cases fld; simp add: validate_def update_run_button_fields split: sum.splits)+


lemma example_format_command:
  "format_command (get_command (example_asker ''ls {folder_path}'')) = Inr ''ls /tmp''"
  by (simp add: format_command_def get_command_def example_asker_def example_field_def)

lemma example_format_cwd:
  "format_cwd (get_command (example_asker v)) = Inr (Path ''/tmp'')"
  by (simp add: format_cwd_def get_command_def example_asker_def example_field_def)

lemma example_format_KeyError:
  "format_command (get_command (example_asker ''ls {nope}'')) = Inl KeyError"
  by (simp add: format_command_def get_command_def example_asker_def example_field_def)

text \<open>
  C2. Whatever the dialog shows: when the substituted-value function of a field raises
  \<open>ValueError\<close>, \<open>KeyError\<close> or \<open>IndexError\<close>, \<^verbatim>\<open>validate\<close> writes
  \<^verbatim>\<open>Substitution error\<close> into the display of the field, and when the function returns
  a string it writes that string; in both cases it then calls the validated callback
  (\<^verbatim>\<open>update_run_button\<close>) on the dialog with the new display, and the display holds
  this text and is disabled when \<^verbatim>\<open>validate\<close> ends.
\<close>

theorem validate_shows:
  "(\<forall>e. get_substituted_value env fld s = Inl e \<and> is_substitution_error e \<longrightarrow>
      (\<exists>s1. validate env fld s = update_run_button env s1
           \<and> tw_text (display_of fld s1) = ''Substitution error'')
      \<and> tw_text (display_of fld (snd (validate env fld s))) = ''Substitution error''
      \<and> tw_state (display_of fld (snd (validate env fld s))) = Disabled)
 \<and> (\<forall>v. get_substituted_value env fld s = Inr v \<longrightarrow>
      (\<exists>s1. validate env fld s = update_run_button env s1
           \<and> tw_text (display_of fld s1) = v)
      \<and> tw_text (display_of fld (snd (validate env fld s))) = v
      \<and> tw_state (display_of fld (snd (validate env fld s))) = Disabled)"
proof (intro conjI allI impI)
  fix e
  assume a: "get_substituted_value env fld s = Inl e \<and> is_substitution_error e"
  let ?s1 = "map_field fld (\<lambda>f. f\<lparr>command_display := show_error (command_display f)\<rparr>) s"
  have v: "validate env fld s = update_run_button env ?s1"
    using a by (simp add: validate_caught)
  have d: "display_of fld ?s1 = show_error (command_display (get_field fld s))"
    by (simp add: display_of_def get_field_map_field)
  show "\<exists>s1. validate env fld s = update_run_button env s1
           \<and> tw_text (display_of fld s1) = ''Substitution error''"
    by (rule exI [of _ ?s1]) (simp add: v d show_error_text)
  show "tw_text (display_of fld (snd (validate env fld s))) = ''Substitution error''"
    by (simp add: v display_of_def get_field_update_run_button get_field_map_field
        show_error_text)
  show "tw_state (display_of fld (snd (validate env fld s))) = Disabled"
    by (simp add: v display_of_def get_field_update_run_button get_field_map_field
        show_error_text)
next
  fix v
  assume a: "get_substituted_value env fld s = Inr v"
  let ?s1 = "map_field fld (\<lambda>f. f\<lparr>command_display := show_value v (command_display f)\<rparr>) s"
  have w: "validate env fld s = update_run_button env ?s1"
    using a by (simp add: validate_value)
  have d: "display_of fld ?s1 = show_value v (command_display (get_field fld s))"
    by (simp add: display_of_def get_field_map_field)
  show "\<exists>s1. validate env fld s = update_run_button env s1 \<and> tw_text (display_of fld s1) = v"
    by (rule exI [of _ ?s1]) (simp add: w d show_value_text)
  show "tw_text (display_of fld (snd (validate env fld s))) = v"
    by (simp add: w display_of_def get_field_update_run_button get_field_map_field
        show_value_text)
  show "tw_state (display_of fld (snd (validate env fld s))) = Disabled"
    by (simp add: w display_of_def get_field_update_run_button get_field_map_field
        show_value_text)
qed

theorem validate_shows_witness:
  "get_substituted_value (posix_env [''/tmp'']) CommandField (example_asker ''ls {nope}'')
     = Inl KeyError
 \<and> is_substitution_error KeyError
 \<and> tw_text (display_of CommandField
      (snd (validate (posix_env [''/tmp'']) CommandField (example_asker ''ls {nope}''))))
     = ''Substitution error''
 \<and> tw_state (display_of CommandField
      (snd (validate (posix_env [''/tmp'']) CommandField (example_asker ''ls {nope}''))))
     = Disabled
 \<and> get_substituted_value (posix_env [''/tmp'']) CommandField
      (example_asker ''ls {folder_path}'') = Inr ''ls /tmp''
 \<and> tw_text (display_of CommandField
      (snd (validate (posix_env [''/tmp'']) CommandField (example_asker ''ls {folder_path}''))))
     = ''ls /tmp''
 \<and> tw_state (display_of CommandField
      (snd (validate (posix_env [''/tmp'']) CommandField (example_asker ''ls {folder_path}''))))
     = Disabled"
proof -
  have e1: "get_substituted_value (posix_env [''/tmp'']) CommandField
      (example_asker ''ls {nope}'') = Inl KeyError"
    by (simp add: posix_env_def example_format_KeyError)
  have e2: "get_substituted_value (posix_env [''/tmp'']) CommandField
      (example_asker ''ls {folder_path}'') = Inr ''ls /tmp''"
    by (simp add: posix_env_def example_format_command)
  show ?thesis
    using validate_shows [of "posix_env [''/tmp'']" CommandField "example_asker ''ls {nope}''"]
      validate_shows [of "posix_env [''/tmp'']" CommandField
        "example_asker ''ls {folder_path}''"]
    by (simp add: e1 e2 del: get_substituted_value.simps)
qed


text \<open>
  C5. \<^verbatim>\<open>get_command\<close> returns the command made of the text of the command entry, the
  text of the directory entry, the selected radio button and the substitutions of the
  dialog.
\<close>

theorem get_command_fields:
  "get_command s =
     \<lparr>command_format = format_var (command s), cwd_format = format_var (cwd s),
      external_terminal = terminal_var s, substitutions = ca_substitutions s\<rparr>"
  by (simp add: get_command_def)

text \<open>
  C6. When \<^verbatim>\<open>format_command()\<close> of the command of the dialog succeeds, the command
  display shows its result after \<^verbatim>\<open>validate\<close>; when \<^verbatim>\<open>format_cwd()\<close> succeeds, the
  directory display shows \<^verbatim>\<open>str()\<close> of its result after \<^verbatim>\<open>validate\<close>.
\<close>

theorem display_is_formatted:
  "(\<forall>v. env_format_command env (get_command s) = Inr v \<longrightarrow>
       tw_text (command_display (command (snd (validate env CommandField s)))) = v)
 \<and> (\<forall>d. env_format_cwd env (get_command s) = Inr d \<longrightarrow>
       tw_text (command_display (cwd (snd (validate env CwdField s)))) = env_str env d)"
  by (simp add: validate_def update_run_button_fields show_value_text)

theorem display_is_formatted_witness:
  "env_format_command (posix_env [''/tmp'']) (get_command (example_asker ''ls {folder_path}''))
     = Inr ''ls /tmp''
 \<and> tw_text (command_display (command
      (snd (validate (posix_env [''/tmp'']) CommandField (example_asker ''ls {folder_path}'')))))
     = ''ls /tmp''
 \<and> env_format_cwd (posix_env [''/tmp'']) (get_command (example_asker ''ls {folder_path}''))
     = Inr (Path ''/tmp'')
 \<and> tw_text (command_display (cwd
      (snd (validate (posix_env [''/tmp'']) CwdField (example_asker ''ls {folder_path}'')))))
     = ''/tmp''"
proof -
  have e1: "env_format_command (posix_env [''/tmp''])
      (get_command (example_asker ''ls {folder_path}'')) = Inr ''ls /tmp''"
    by (simp add: posix_env_def example_format_command)
  have e2: "env_format_cwd (posix_env [''/tmp''])
      (get_command (example_asker ''ls {folder_path}'')) = Inr (Path ''/tmp'')"
    by (simp add: posix_env_def example_format_cwd)
  have e3: "env_str (posix_env [''/tmp'']) (Path ''/tmp'') = ''/tmp''"
    by (simp add: posix_env_def)
  show ?thesis
    using display_is_formatted [of "posix_env [''/tmp'']" "example_asker ''ls {folder_path}''"]
    by (simp add: e1 e2 e3)
qed


lemma ask_command_gui:
  "snd (ask_command env wait_window ctx g) =
     (if asker_window \<in> set (windows g) then g\<lparr>focus := Some asker_window\<rparr>
      else (case CommandAsker_init env ctx of
              Inl e \<Rightarrow> Toplevel asker_window g
            | Inr asker \<Rightarrow> snd (wait_window asker (Toplevel asker_window g))))"
  by (simp add: ask_command_def Let_def split: sum.splits prod.splits)

lemma Toplevel_first:
  "asker_window \<notin> set (windows g) \<Longrightarrow> one_asker_window (Toplevel asker_window g)"
  by (simp add: one_asker_window_def Toplevel_def count_list_0_iff)

lemma example_wait_keeps:
  "one_asker_window g1 \<Longrightarrow> one_asker_window (snd (example_wait_window asker g1))"
proof -
  have "count_list (remove1 x xs) x \<le> count_list xs x" for x :: string and xs
    by (induction xs) auto
  then show "one_asker_window g1 \<Longrightarrow> one_asker_window (snd (example_wait_window asker g1))"
    unfolding one_asker_window_def example_wait_window_def
    by (simp add: le_trans)
qed

text \<open>
  C7. A call of \<^verbatim>\<open>ask_command\<close> that finds the window \<^verbatim>\<open>.run_command_asker\<close> gives
  it the focus and returns \<open>None\<close>; it creates no window and no dialog. So there is
  never a second window of this name: if there is at most one before the call, and the
  event loop that runs while the dialog is open keeps it so, there is at most one after
  the call.
\<close>

theorem ask_command_existing:
  "(asker_window \<in> set (windows g) \<longrightarrow>
      ask_command env wait_window ctx g = (Inr None, g\<lparr>focus := Some asker_window\<rparr>)
      \<and> windows (snd (ask_command env wait_window ctx g)) = windows g)
 \<and> ((\<forall>asker g1. one_asker_window g1 \<longrightarrow> one_asker_window (snd (wait_window asker g1)))
      \<and> one_asker_window g
    \<longrightarrow> one_asker_window (snd (ask_command env wait_window ctx g)))"
proof (intro conjI impI)
  assume "asker_window \<in> set (windows g)"
  then show "ask_command env wait_window ctx g = (Inr None, g\<lparr>focus := Some asker_window\<rparr>)"
    by (simp add: ask_command_def)
next
  assume "asker_window \<in> set (windows g)"
  then show "windows (snd (ask_command env wait_window ctx g)) = windows g"
    by (simp add: ask_command_def)
next
  assume a: "(\<forall>asker g1. one_asker_window g1 \<longrightarrow> one_asker_window (snd (wait_window asker g1)))
      \<and> one_asker_window g"
  show "one_asker_window (snd (ask_command env wait_window ctx g))"
  proof (cases "asker_window \<in> set (windows g)")
    case True
    with a show ?thesis by (simp add: ask_command_gui one_asker_window_def)
  next
    case False
    then have "one_asker_window (Toplevel asker_window g)" by (rule Toplevel_first)
    with a False show ?thesis by (simp add: ask_command_gui split: sum.splits)
  qed
qed

theorem ask_command_existing_witness:
  "asker_window \<in> set (windows (example_gui [''.'', ''.run_command_asker'']))
 \<and> ask_command (posix_env [''/tmp'']) example_wait_window example_ctx
      (example_gui [''.'', ''.run_command_asker''])
     = (Inr None, \<lparr>windows = [''.'', ''.run_command_asker''], focus = Some ''.run_command_asker''\<rparr>)
 \<and> one_asker_window (example_gui [''.''])
 \<and> one_asker_window (snd (ask_command (posix_env [''/tmp'']) example_wait_window example_ctx
      (example_gui [''.''])))"
proof -
  have k: "\<forall>asker g1. one_asker_window g1 \<longrightarrow>
      one_asker_window (snd (example_wait_window asker g1))"
    using example_wait_keeps by blast
  have o: "one_asker_window (example_gui [''.''])"
    by (simp add: one_asker_window_def example_gui_def asker_window_def)
  from ask_command_existing [of "example_gui [''.'', ''.run_command_asker'']" "posix_env [''/tmp'']"
      example_wait_window example_ctx]
    ask_command_existing [of "example_gui [''.'']" "posix_env [''/tmp'']" example_wait_window example_ctx]
    k o
  show ?thesis by (simp add: example_gui_def asker_window_def)
qed









lemma map_field_repeat_bindings [simp]:
  "repeat_bindings (map_field fld g s) = repeat_bindings s"
  by (cases fld) simp_all













lemma select_fields:
  assumes "startswith (command_format cmd) prefix"
  shows "\<exists>s'. select_command_autocompletion env cmd prefix s = (None, s')
     \<and> format_var (command s') = command_format cmd
     \<and> entry_insert (command s') = length prefix
     \<and> selected_text (command s') = drop (length prefix) (command_format cmd)
     \<and> format_var (cwd s') = cwd_format cmd
     \<and> terminal_var s' = external_terminal cmd"
proof -
  have len: "length prefix \<le> length (command_format cmd)"
    using assms unfolding startswith_def by (metis length_take min.cobounded1)
  show ?thesis
    using len
    by (simp add: select_command_autocompletion_def assms Let_def format_var_set_def
        validate_entry entry_set_text_def icursor_def selection_range_def selected_text_def
        min_def)
qed

lemma loop_no_match:
  "find (\<lambda>item. startswith (command_format item) prefix) items = None \<Longrightarrow>
   autocomplete_loop env prefix items s = (Inr None, s)"
  by (induction items) (auto split: if_splits)

lemma loop_match:
  "find (\<lambda>item. startswith (command_format item) prefix) items = Some item \<Longrightarrow>
   autocomplete_loop env prefix items s =
     (case select_command_autocompletion env item prefix s of
        (Some e, s') \<Rightarrow> (Inl e, s') | (None, s') \<Rightarrow> (Inr (Some ''break''), s'))
   \<and> startswith (command_format item) prefix"
  by (induction items) (auto split: if_splits)

lemma autocomplete_loop_eq:
  "autocomplete_applies char s \<Longrightarrow>
   autocomplete env char s = autocomplete_loop env (typed_prefix char s) (suggestions s) s"
  by (auto simp: autocomplete_def autocomplete_applies_def typed_prefix_def
      split: option.splits)

lemma autocomplete_not_applies:
  "\<not> autocomplete_applies char s \<Longrightarrow> autocomplete env char s = (Inr None, s)"
  by (auto simp: autocomplete_def autocomplete_applies_def split: option.splits)


lemma example_applies: "autocomplete_applies '' '' (example_asker ''ls'')"
  by (simp add: autocomplete_applies_def isprintable_def char_isprintable_def
      example_asker_def example_field_def)

lemma example_prefix: "typed_prefix '' '' (example_asker ''ls'') = ''ls ''"
  by (simp add: typed_prefix_def example_asker_def example_field_def)

lemma example_find:
  "find (\<lambda>item. startswith (command_format item) ''ls '') (suggestions (example_asker ''ls''))
     = Some \<lparr>command_format = ''ls {folder_path}'', cwd_format = ''/'',
            external_terminal = True, substitutions = Map.empty\<rparr>"
  by (simp add: example_asker_def example_suggestions_def startswith_def)

lemma example_not_applies: "\<not> autocomplete_applies ''Up'' (example_asker ''ls'')"
  by (simp add: autocomplete_applies_def)

text \<open>
  C10. If the keystroke is not a single printable character, or a selection does not
  reach the end of the entry, or no suggestion starts with the kept text followed by
  the typed character, \<^verbatim>\<open>_autocomplete\<close> changes nothing and returns \<open>None\<close>, so that
  the keystroke is handled as usual. Otherwise it takes the first suggestion whose
  command format starts with that prefix and returns \<^verbatim>\<open>"break"\<close>: the entry then holds
  the whole command format, which starts with the prefix, the cursor is at the end of
  the prefix, the rest of the command is selected, and the directory format and the
  terminal flag of the dialog are those of the suggestion.
\<close>

theorem autocomplete_spec:
  "(\<not> autocomplete_applies char s
      \<or> find (\<lambda>item. startswith (command_format item) (typed_prefix char s)) (suggestions s)
          = None
    \<longrightarrow> autocomplete env char s = (Inr None, s))
 \<and> (\<forall>item. autocomplete_applies char s
      \<and> find (\<lambda>item. startswith (command_format item) (typed_prefix char s)) (suggestions s)
          = Some item
    \<longrightarrow> (\<exists>s'. autocomplete env char s = (Inr (Some ''break''), s')
          \<and> format_var (command s') = command_format item
          \<and> startswith (format_var (command s')) (typed_prefix char s)
          \<and> entry_insert (command s') = length (typed_prefix char s)
          \<and> selected_text (command s')
              = drop (length (typed_prefix char s)) (command_format item)
          \<and> format_var (cwd s') = cwd_format item
          \<and> terminal_var s' = external_terminal item))"
proof (intro conjI allI impI)
  assume "\<not> autocomplete_applies char s
      \<or> find (\<lambda>item. startswith (command_format item) (typed_prefix char s)) (suggestions s)
          = None"
  then show "autocomplete env char s = (Inr None, s)"
    using autocomplete_not_applies autocomplete_loop_eq loop_no_match by metis
next
  fix item
  assume a: "autocomplete_applies char s
      \<and> find (\<lambda>item. startswith (command_format item) (typed_prefix char s)) (suggestions s)
          = Some item"
  let ?p = "typed_prefix char s"
  from a have sw: "startswith (command_format item) ?p"
    using loop_match by blast
  from select_fields [OF sw, of env s] obtain s' where
    sel: "select_command_autocompletion env item ?p s = (None, s')"
    and f: "format_var (command s') = command_format item"
      "entry_insert (command s') = length ?p"
      "selected_text (command s') = drop (length ?p) (command_format item)"
      "format_var (cwd s') = cwd_format item"
      "terminal_var s' = external_terminal item"
    by blast
  have "autocomplete env char s = autocomplete_loop env ?p (suggestions s) s"
    using a by (simp add: autocomplete_loop_eq)
  also have "\<dots> = (Inr (Some ''break''), s')"
    using a loop_match [of ?p "suggestions s" item env s] by (simp add: sel)
  finally show "\<exists>s'. autocomplete env char s = (Inr (Some ''break''), s')
          \<and> format_var (command s') = command_format item
          \<and> startswith (format_var (command s')) ?p
          \<and> entry_insert (command s') = length ?p
          \<and> selected_text (command s') = drop (length ?p) (command_format item)
          \<and> format_var (cwd s') = cwd_format item
          \<and> terminal_var s' = external_terminal item"
    using f sw by simp
qed

theorem autocomplete_spec_witness:
  "\<not> autocomplete_applies ''Up'' (example_asker ''ls'')
 \<and> autocomplete (posix_env [''/tmp'']) ''Up'' (example_asker ''ls'')
     = (Inr None, example_asker ''ls'')
 \<and> autocomplete_applies '' '' (example_asker ''ls'')
 \<and> fst (autocomplete (posix_env [''/tmp'']) '' '' (example_asker ''ls'')) = Inr (Some ''break'')
 \<and> format_var (command (snd (autocomplete (posix_env [''/tmp'']) '' '' (example_asker ''ls''))))
     = ''ls {folder_path}''
 \<and> entry_insert (command (snd (autocomplete (posix_env [''/tmp'']) '' '' (example_asker ''ls''))))
     = 3
 \<and> selected_text (command (snd (autocomplete (posix_env [''/tmp'']) '' '' (example_asker ''ls''))))
     = ''{folder_path}''
 \<and> format_var (cwd (snd (autocomplete (posix_env [''/tmp'']) '' '' (example_asker ''ls''))))
     = ''/''
 \<and> terminal_var (snd (autocomplete (posix_env [''/tmp'']) '' '' (example_asker ''ls'')))"
  using autocomplete_spec [of "''Up''" "example_asker ''ls''" "posix_env [''/tmp'']"]
    autocomplete_spec [of "'' ''" "example_asker ''ls''" "posix_env [''/tmp'']"]
  by (auto simp: example_applies example_prefix example_find example_not_applies)


end
